theory Spec2Isabelle
  imports Main "HOL-Library.Sublist" "HOL-Library.AList"
begin

section \<open>Python values, mutable dictionaries and the object store\<close>

text \<open>
  The client of \<^verbatim>\<open>solvebio/client.py\<close> passes Python objects around by reference and
  mutates one of them (the headers dictionary) in place. Dictionaries therefore live in
  a store and a value of dictionary type is the address of its cell; two names alias
  exactly when they hold the same address. The store is a list, an address is an index,
  and a fresh dictionary is appended at the end.
\<close>

type_synonym addr = nat

datatype pyval =
    PNone
  | PBool bool
  | PInt int
  | PStr string
  | PTuple "pyval list"
  | PDict addr
  | PAuth "string option"
  | PObj string

text \<open>
  \<open>PDict a\<close> is a reference to the dictionary stored at \<open>a\<close>; \<open>PAuth t\<close> is a
  \<^verbatim>\<open>SolveTokenAuth\<close> instance whose \<^verbatim>\<open>token\<close> attribute is \<open>t\<close>; \<open>PObj c\<close> is any other
  object of class \<open>c\<close> (a file handle, say) that has neither a length nor a \<^verbatim>\<open>pop\<close> method.
\<close>

text \<open>
  A dictionary is an association list read with \<open>map_of\<close> and changed with the
  operations of \<open>AList\<close>, so that every function of the model can be evaluated.
\<close>

type_synonym pydict = "(string \<times> pyval) list"
type_synonym store = "pydict list"

fun truthy :: "store \<Rightarrow> pyval \<Rightarrow> bool" where
  "truthy s PNone = False"
| "truthy s (PBool b) = b"
| "truthy s (PInt i) = (i \<noteq> 0)"
| "truthy s (PStr x) = (x \<noteq> [])"
| "truthy s (PTuple xs) = (xs \<noteq> [])"
| "truthy s (PDict a) = (s ! a \<noteq> [])"
| "truthy s (PAuth t) = True"
| "truthy s (PObj c) = True"

fun type_name :: "pyval \<Rightarrow> string" where
  "type_name PNone = ''NoneType''"
| "type_name (PBool b) = ''bool''"
| "type_name (PInt i) = ''int''"
| "type_name (PStr x) = ''str''"
| "type_name (PTuple xs) = ''tuple''"
| "type_name (PDict a) = ''dict''"
| "type_name (PAuth t) = ''SolveTokenAuth''"
| "type_name (PObj c) = c"

text \<open>Truth value of a value that is a \<^verbatim>\<open>str\<close> or \<^verbatim>\<open>None\<close>.\<close>

fun str_truthy :: "string option \<Rightarrow> bool" where
  "str_truthy None = False"
| "str_truthy (Some x) = (x \<noteq> [])"

text \<open>\<^verbatim>\<open>a or b\<close> on such values.\<close>

definition py_or :: "string option \<Rightarrow> string option \<Rightarrow> string option" where
  "py_or a b = (if str_truthy a then a else b)"

subsection \<open>Exceptions, responses, errors\<close>

text \<open>
  An exception instance (deriving from \<^verbatim>\<open>Exception\<close>) is known to the client through
  \<^verbatim>\<open>type(e).__name__\<close>, \<^verbatim>\<open>str(e)\<close> and
  \<^verbatim>\<open>isinstance(e, requests.exceptions.RequestException)\<close>.
\<close>

datatype pyexn = PyExn (exn_name: string) (exn_str: string) (is_request_exception: bool)

definition quote :: char where
  "quote = CHR 0x27"

definition KeyError :: "string \<Rightarrow> pyexn" where
  "KeyError k = PyExn ''KeyError'' (quote # k @ [quote]) False"

definition AttributeError :: "pyval \<Rightarrow> string \<Rightarrow> pyexn" where
  "AttributeError v attr =
     PyExn ''AttributeError''
       (quote # type_name v @ [quote] @ '' object has no attribute '' @ quote # attr @ [quote]) False"

definition TypeError :: "string \<Rightarrow> pyexn" where
  "TypeError m = PyExn ''TypeError'' m False"

definition IndexError :: "string \<Rightarrow> pyexn" where
  "IndexError m = PyExn ''IndexError'' m False"

record response =
  status_code :: int
  resp_headers :: "(string \<times> string) list"
  content :: string

text \<open>The decoded view of a JSON body (numbers as integers).\<close>

datatype json =
    JNull
  | JBool bool
  | JNum int
  | JStr string
  | JArr "json list"
  | JObj "(string \<times> json) list"

text \<open>
  \<open>SolveError m r\<close> is \<^verbatim>\<open>SolveError(message=m, response=r)\<close>, an absent keyword being
  \<open>None\<close>; \<open>Uncaught e\<close> is any other exception that leaves the client.
\<close>

datatype error =
    SolveError "string option" "response option"
  | Uncaught pyexn

datatype result = RawResponse response | Json json

subsection \<open>The program state and the collaborators outside the module\<close>

datatype level = DEBUG | INFO

record call =
  c_method :: string
  c_url :: string
  c_opts :: pydict
  c_store :: store

text \<open>
  \<open>store\<close> holds the dictionaries, \<open>log\<close> what the logger \<^verbatim>\<open>solvebio\<close> was given and
  \<open>calls\<close> every invocation of \<^verbatim>\<open>requests.request\<close>, oldest first, with the store
  as it was at that moment.
\<close>

record state =
  store :: store
  log :: "(level \<times> string) list"
  calls :: "call list"

text \<open>What \<^verbatim>\<open>get_credentials()\<close> does: raise, return \<^verbatim>\<open>None\<close>, or return a tuple.\<close>

datatype cred_outcome = CredRaises pyexn | CredNone | CredTuple "string option list"

text \<open>
  Everything the module reads from outside itself: the module attributes
  \<^verbatim>\<open>solvebio.api_key\<close> and \<^verbatim>\<open>solvebio.api_host\<close>, the credential store, and the library
  functions \<^verbatim>\<open>json.dumps\<close>, \<^verbatim>\<open>urlparse.urljoin\<close>, \<^verbatim>\<open>requests.request\<close>,
  \<^verbatim>\<open>Response.json\<close>, \<^verbatim>\<open>textwrap.fill\<close>, together with the constants
  \<^verbatim>\<open>SolveError.default_message\<close> and the pieces of the User-Agent string.
\<close>

record env =
  api_key :: "string option"
  api_host :: "string option"
  get_credentials :: cred_outcome
  json_dumps :: "store \<Rightarrow> pyval \<Rightarrow> pyexn + string"
  urljoin :: "string \<Rightarrow> string \<Rightarrow> string"
  requests_request :: "call \<Rightarrow> pyexn + response"
  response_json :: "response \<Rightarrow> pyexn + json"
  textwrap_fill :: "string \<Rightarrow> string"
  default_message :: string
  VERSION :: string
  python_implementation :: string
  python_version :: string

section \<open>String helpers\<close>

text \<open>\<^verbatim>\<open>'%d' % n\<close>\<close>

definition digit :: "nat \<Rightarrow> char" where
  "digit d = ''0123456789'' ! d"

fun show_nat :: "nat \<Rightarrow> string" where
  "show_nat n = (if n < 10 then [digit n] else show_nat (n div 10) @ [digit (n mod 10)])"

declare show_nat.simps [simp del]

definition fmt_d :: "int \<Rightarrow> string" where
  "fmt_d i = (if i < 0 then CHR ''-'' # show_nat (nat (- i)) else show_nat (nat i))"

text \<open>\<^verbatim>\<open>str.upper()\<close> on a byte string.\<close>

definition upper_char :: "char \<Rightarrow> char" where
  "upper_char c =
     (case map_of (zip ''abcdefghijklmnopqrstuvwxyz'' ''ABCDEFGHIJKLMNOPQRSTUVWXYZ'') c of
        Some u \<Rightarrow> u
      | None \<Rightarrow> c)"

definition upper :: "string \<Rightarrow> string" where
  "upper x = map upper_char x"

definition newline :: char where
  "newline = CHR 0x0A"

section \<open>The error handlers\<close>

text \<open>
  \<^verbatim>\<open>_handle_api_error(response)\<close>, lines 19 to 24. It always raises; the model returns
  the error raised and the state after the logging.
\<close>

definition handle_api_error :: "response \<Rightarrow> state \<Rightarrow> error \<times> state" where
  "handle_api_error r st =
     (if status_code r \<in> set [400, 401, 403, 404] then (SolveError None (Some r), st)
      else (SolveError None (Some r),
            st\<lparr>log := log st @ [(INFO, ''API Error: '' @ fmt_d (status_code r))]\<rparr>))"

definition unexpected_message :: string where
  "unexpected_message =
     ''Unexpected error communicating with SolveBio. '' @
     ''It looks like there'' @ [quote] @ ''s probably a configuration '' @
     ''issue locally. If this problem persists, let us '' @
     ''know at contact@solvebio.com.''"

text \<open>\<^verbatim>\<open>_handle_request_error(e)\<close>, lines 27 to 42. It always raises.\<close>

definition handle_request_error :: "env \<Rightarrow> pyexn \<Rightarrow> error" where
  "handle_request_error env e =
     (let (msg, err) =
        (if is_request_exception e
         then (default_message env, exn_name e @ '': '' @ exn_str e)
         else (unexpected_message,
               (''A '' @ exn_name e @ '' was raised'') @
               (if exn_str e \<noteq> [] then '' with error message '' @ exn_str e
                else '' with no error message'')))
      in SolveError
           (Some (textwrap_fill env msg @ [newline, newline] @ ''(Network error: '' @ err @ '')''))
           None)"

section \<open>SolveTokenAuth\<close>

text \<open>\<^verbatim>\<open>get_credentials()[1]\<close>\<close>

definition credentials_item1 :: "cred_outcome \<Rightarrow> pyexn + string option" where
  "credentials_item1 c =
     (case c of
        CredRaises e \<Rightarrow> Inl e
      | CredNone \<Rightarrow> Inl (TypeError (quote # ''NoneType'' @ [quote] @ '' object has no attribute ''
                                      @ quote # ''__getitem__'' @ [quote]))
      | CredTuple xs \<Rightarrow>
          if 1 < length xs then Inr (xs ! 1) else Inl (IndexError ''tuple index out of range''))"

text \<open>
  \<^verbatim>\<open>SolveTokenAuth._get_api_key\<close>, lines 59 to 71: the bare \<^verbatim>\<open>except: pass\<close> turns every
  exception of the lookup into the final \<^verbatim>\<open>return None\<close>.
\<close>

definition get_api_key :: "env \<Rightarrow> pyexn + string option" where
  "get_api_key env =
     (if str_truthy (api_key env) then Inr (api_key env)
      else case credentials_item1 (get_credentials env) of
             Inr t \<Rightarrow> Inr t
           | Inl e \<Rightarrow> Inr None)"

text \<open>
  \<^verbatim>\<open>SolveTokenAuth.__init__\<close>, lines 48 and 49; the result is the \<^verbatim>\<open>token\<close> attribute
  of the new instance.
\<close>

definition SolveTokenAuth_init :: "env \<Rightarrow> string option \<Rightarrow> pyexn + string option" where
  "SolveTokenAuth_init env token =
     (if str_truthy token then Inr token else get_api_key env)"


section \<open>SolveClient\<close>

text \<open>The attributes of a client; \<open>self_headers\<close> is the address of \<^verbatim>\<open>self._headers\<close>.\<close>

record client =
  self_api_key :: "string option"
  self_api_host :: "string option"
  self_headers :: addr

text \<open>\<^verbatim>\<open>SolveClient.__init__\<close>, lines 77 to 89.\<close>

definition SolveClient_init ::
  "env \<Rightarrow> string option \<Rightarrow> string option \<Rightarrow> state \<Rightarrow> client \<times> state" where
  "SolveClient_init env key host st =
     (\<lparr>self_api_key = key, self_api_host = host, self_headers = length (store st)\<rparr>,
      st\<lparr>store := store st @
         [[(''Content-Type'', PStr ''application/json''),
           (''Accept'', PStr ''application/json''),
           (''Accept-Encoding'', PStr ''gzip,deflate''),
           (''User-Agent'', PStr (''SolveBio Python Client '' @ VERSION env @ '' [Python '' @
              python_implementation env @ ''/'' @ python_version env @ '']''))]]\<rparr>)"

text \<open>
  The dictionary literal of lines 168 to 177. Its values are evaluated in the order
  written, so the new \<^verbatim>\<open>{}\<close> of \<^verbatim>\<open>data\<close>, the copy \<^verbatim>\<open>dict(self._headers)\<close> and the new
  \<^verbatim>\<open>{}\<close> of \<^verbatim>\<open>params\<close> are allocated in that order, at the addresses \<open>n\<close>,
  \<open>n + 1\<close> and \<open>n + 2\<close> when the store holds \<open>n\<close> dictionaries. \<open>default_dict\<close> is the
  literal, \<open>default_opts\<close> its evaluation.
\<close>

definition default_dict :: "string option \<Rightarrow> nat \<Rightarrow> pydict" where
  "default_dict token n =
     [(''allow_redirects'', PBool True),
      (''auth'', PAuth token),
      (''data'', PDict n),
      (''files'', PNone),
      (''headers'', PDict (n + 1)),
      (''params'', PDict (n + 2)),
      (''timeout'', PInt 80),
      (''verify'', PBool True)]"

definition default_opts :: "env \<Rightarrow> client \<Rightarrow> state \<Rightarrow> (error + pydict) \<times> state" where
  "default_opts env self st =
     (case SolveTokenAuth_init env None of
        Inl e \<Rightarrow> (Inl (Uncaught e), st)
      | Inr token \<Rightarrow>
          (let s = store st
           in (Inr (default_dict token (length s)),
               st\<lparr>store := s @ [[], s ! self_headers self, []]\<rparr>)))"

text \<open>
  \<^verbatim>\<open>d[k]\<close>, \<^verbatim>\<open>d.pop(k)\<close>, \<^verbatim>\<open>d.pop(k, None)\<close> (whose result the client drops) and
  \<^verbatim>\<open>d.update(e)\<close>.
\<close>

definition getitem :: "pydict \<Rightarrow> string \<Rightarrow> error + pyval" where
  "getitem d k = (case map_of d k of None \<Rightarrow> Inl (Uncaught (KeyError k)) | Some v \<Rightarrow> Inr v)"

definition dict_pop :: "pydict \<Rightarrow> string \<Rightarrow> error + pyval \<times> pydict" where
  "dict_pop d k =
     (case map_of d k of
        None \<Rightarrow> Inl (Uncaught (KeyError k))
      | Some v \<Rightarrow> Inr (v, AList.delete k d))"

definition dict_pop_default :: "pydict \<Rightarrow> string \<Rightarrow> pydict" where
  "dict_pop_default d k = AList.delete k d"

definition dict_update :: "pydict \<Rightarrow> pydict \<Rightarrow> pydict" where
  "dict_update d e = AList.merge d e"

text \<open>Lines 179 to 183: the value of \<^verbatim>\<open>raw\<close> and the options afterwards.\<close>

definition extract_raw :: "pydict \<Rightarrow> pydict \<Rightarrow> error + pyval \<times> pydict" where
  "extract_raw kwargs opts =
     (case map_of kwargs ''raw'' of
        Some raw \<Rightarrow>
          (case dict_pop opts ''raw'' of
             Inl e \<Rightarrow> Inl e
           | Inr (v, opts') \<Rightarrow> Inr (raw, opts'))
      | None \<Rightarrow> Inr (PBool False, opts))"

text \<open>
  Lines 189 to 193. \<^verbatim>\<open>opts['headers'].pop('Content-Type', None)\<close> changes the dictionary
  that \<^verbatim>\<open>opts['headers']\<close> refers to, in the store; a value that is no dictionary has
  no \<^verbatim>\<open>pop\<close> taking these arguments.
\<close>

definition prepare_body :: "env \<Rightarrow> pydict \<Rightarrow> store \<Rightarrow> error + pydict \<times> store" where
  "prepare_body env opts s =
     (case getitem opts ''files'' of
        Inl e \<Rightarrow> Inl e
      | Inr files \<Rightarrow>
          if truthy s files then
            (case getitem opts ''headers'' of
               Inl e \<Rightarrow> Inl e
             | Inr (PDict a) \<Rightarrow> Inr (opts, s[a := dict_pop_default (s ! a) ''Content-Type''])
             | Inr v \<Rightarrow> Inl (Uncaught (AttributeError v ''pop'')))
          else
            (case getitem opts ''data'' of
               Inl e \<Rightarrow> Inl e
             | Inr d \<Rightarrow>
                 (case json_dumps env s d of
                    Inl e \<Rightarrow> Inl (Uncaught e)
                  | Inr body \<Rightarrow> Inr (AList.update ''data'' (PStr body) opts, s))))"

text \<open>Lines 196 to 202.\<close>

definition resolve_url :: "env \<Rightarrow> client \<Rightarrow> string \<Rightarrow> error + string" where
  "resolve_url env self url =
     (case py_or (self_api_host self) (api_host env) of
        None \<Rightarrow> Inl (SolveError (Some ''No SolveBio API host is set'') None)
      | Some host \<Rightarrow>
          if \<not> str_truthy (Some host) then
            Inl (SolveError (Some ''No SolveBio API host is set'') None)
          else if \<not> prefix host url then Inr (urljoin env host url)
          else Inr url)"

text \<open>
  \<^verbatim>\<open>SolveClient.request\<close> up to the debug line (lines 168 to 204): either the exception
  raised, or the value of \<^verbatim>\<open>raw\<close> and the arguments \<^verbatim>\<open>requests.request\<close> is about to get.
\<close>

definition request_prepare ::
  "env \<Rightarrow> client \<Rightarrow> string \<Rightarrow> string \<Rightarrow> pydict \<Rightarrow> state \<Rightarrow> (error + pyval \<times> call) \<times> state" where
  "request_prepare env self method url kwargs st =
     (case default_opts env self st of
        (Inl e, st1) \<Rightarrow> (Inl e, st1)
      | (Inr opts, st1) \<Rightarrow>
     (case extract_raw kwargs opts of
        Inl e \<Rightarrow> (Inl e, st1)
      | Inr (raw, opts1) \<Rightarrow>
     (let opts2 = dict_update opts1 kwargs;
          method' = upper method
      in case prepare_body env opts2 (store st1) of
        Inl e \<Rightarrow> (Inl e, st1)
      | Inr (opts3, s2) \<Rightarrow>
     (let st2 = st1\<lparr>store := s2\<rparr>
      in case resolve_url env self url of
        Inl e \<Rightarrow> (Inl e, st2)
      | Inr url' \<Rightarrow>
     (let st3 = st2\<lparr>log := log st2 @ [(DEBUG, ''API '' @ method' @ '' Request: '' @ url')]\<rparr>
      in (Inr (raw, \<lparr>c_method = method', c_url = url', c_opts = opts3, c_store = store st3\<rparr>),
          st3))))))"

text \<open>
  The rest of \<^verbatim>\<open>SolveClient.request\<close> (lines 212 to 225): the network call and the
  classification of its outcome.
\<close>

definition request_dispatch :: "env \<Rightarrow> pyval \<Rightarrow> call \<Rightarrow> state \<Rightarrow> (error + result) \<times> state" where
  "request_dispatch env raw c st =
     (let st1 = st\<lparr>calls := calls st @ [c]\<rparr>
      in case requests_request env c of
        Inl e \<Rightarrow> (Inl (handle_request_error env e), st1)
      | Inr response \<Rightarrow>
          if \<not> (200 \<le> status_code response \<and> status_code response < 400) then
            (case handle_api_error response st1 of (err, st2) \<Rightarrow> (Inl err, st2))
          else if truthy (store st1) raw \<or> status_code response \<in> set [204, 301, 302] then
            (Inr (RawResponse response), st1)
          else
            (case response_json env response of
               Inl e \<Rightarrow> (Inl (Uncaught e), st1)
             | Inr j \<Rightarrow> (Inr (Json j), st1)))"

text \<open>\<^verbatim>\<open>SolveClient.request\<close>, lines 118 to 225.\<close>

definition request ::
  "env \<Rightarrow> client \<Rightarrow> string \<Rightarrow> string \<Rightarrow> pydict \<Rightarrow> state \<Rightarrow> (error + result) \<times> state" where
  "request env self method url kwargs st =
     (case request_prepare env self method url kwargs st of
        (Inl e, st1) \<Rightarrow> (Inl e, st1)
      | (Inr (raw, c), st1) \<Rightarrow> request_dispatch env raw c st1)"

text \<open>\<^verbatim>\<open>SolveClient.get\<close> and \<^verbatim>\<open>SolveClient.post\<close>, lines 106 to 116.\<close>

definition get ::
  "env \<Rightarrow> client \<Rightarrow> string \<Rightarrow> pyval \<Rightarrow> pydict \<Rightarrow> state \<Rightarrow> (error + result) \<times> state" where
  "get env self url params kwargs st = request env self ''GET'' url (AList.update ''params'' params kwargs) st"

definition post ::
  "env \<Rightarrow> client \<Rightarrow> string \<Rightarrow> pyval \<Rightarrow> pydict \<Rightarrow> state \<Rightarrow> (error + result) \<times> state" where
  "post env self url data kwargs st = request env self ''POST'' url (AList.update ''data'' data kwargs) st"

section \<open>Example inputs\<close>

text \<open>
  Concrete collaborators and inputs on which the theorems below are evaluated. The
  transport returns a fixed outcome, \<^verbatim>\<open>json.dumps\<close> rejects an object that is not JSON
  data and answers \<^verbatim>\<open>{}\<close> otherwise, and \<^verbatim>\<open>urljoin\<close> concatenates, which is what the
  library function does for a base without a path and a reference starting with \<^verbatim>\<open>/\<close>.
\<close>

definition example_response :: "int \<Rightarrow> response" where
  "example_response n = \<lparr>status_code = n, resp_headers = [], content = ''{}''\<rparr>"

definition example_dumps :: "store \<Rightarrow> pyval \<Rightarrow> pyexn + string" where
  "example_dumps s v =
     (case v of
        PObj c \<Rightarrow> Inl (TypeError (c @ '' is not JSON serializable''))
      | _ \<Rightarrow> Inr ''{}'')"

definition example_env :: "string option \<Rightarrow> pyexn + response \<Rightarrow> env" where
  "example_env host outcome =
     \<lparr>api_key = Some ''K'', api_host = host,
      get_credentials = CredTuple [Some ''u'', Some ''S''],
      json_dumps = example_dumps,
      urljoin = (\<lambda>base url. base @ url),
      requests_request = (\<lambda>c. outcome),
      response_json = (\<lambda>r. Inr (JObj [])),
      textwrap_fill = (\<lambda>x. x),
      default_message = ''Unexpected error communicating with SolveBio.'',
      VERSION = ''1.0'', python_implementation = ''CPython'', python_version = ''2.7''\<rparr>"

definition example_host :: string where
  "example_host = ''https://api.example.com''"

definition example_status_env :: "int \<Rightarrow> env" where
  "example_status_env n = example_env (Some example_host) (Inr (example_response n))"

definition example_ok_env :: env where
  "example_ok_env = example_status_env 200"

definition example_nohost_env :: env where
  "example_nohost_env = example_env None (Inr (example_response 200))"


text \<open>
  A client made by \<^verbatim>\<open>SolveClient()\<close> in an empty store, and the state after it: the
  client's \<^verbatim>\<open>_headers\<close> at address 0, and a dictionary of the caller's at address 1.
\<close>

definition example_client :: client where
  "example_client =
     fst (SolveClient_init example_ok_env None None \<lparr>store = [], log = [], calls = []\<rparr>)"

definition example_state :: state where
  "example_state =
     (let st = snd (SolveClient_init example_ok_env None None \<lparr>store = [], log = [], calls = []\<rparr>)
      in st\<lparr>store := store st @ [[(''Content-Type'', PStr ''text/plain'')]]\<rparr>)"

definition example_prepared :: "env \<Rightarrow> string \<Rightarrow> pydict \<Rightarrow> (error + pyval \<times> call) \<times> state" where
  "example_prepared env url kwargs =
     request_prepare env example_client ''get'' url kwargs example_state"

definition example_call :: "env \<Rightarrow> string \<Rightarrow> pydict \<Rightarrow> call" where
  "example_call env url kwargs = snd (projr (fst (example_prepared env url kwargs)))"

text \<open>
  Two calls that are given the caller's dictionary as \<^verbatim>\<open>headers\<close>, the first one a file
  upload; then a change of that dictionary by the caller and a third call without
  \<^verbatim>\<open>headers\<close>.
\<close>

definition example_kwargs_upload :: pydict where
  "example_kwargs_upload = [(''headers'', PDict 1), (''files'', PObj ''file'')]"






section \<open>Facts about the preparation and the dispatch\<close>


lemma SolveTokenAuth_init_returns: "\<exists>t. SolveTokenAuth_init env token = Inr t"
  by (simp add: SolveTokenAuth_init_def get_api_key_def split: sum.split)

lemma default_opts_returns:
  "\<exists>token. default_opts env self st =
     (Inr (default_dict token (length (store st))),
      st\<lparr>store := store st @ [[], store st ! self_headers self, []]\<rparr>)"
proof -
  obtain t where "SolveTokenAuth_init env None = Inr t"
    using SolveTokenAuth_init_returns by blast
  then have "default_opts env self st =
     (Inr (default_dict t (length (store st))),
      st\<lparr>store := store st @ [[], store st ! self_headers self, []]\<rparr>)"
    by (simp add: default_opts_def Let_def)
  then show ?thesis by blast
qed

lemma map_of_dict_update:
  "map_of (dict_update d e) k = (case map_of e k of Some v \<Rightarrow> Some v | None \<Rightarrow> map_of d k)"
  by (simp add: dict_update_def merge_conv' map_add_def)

lemma map_of_default_dict [simp]:
  "map_of (default_dict token n) ''files'' = Some PNone"
  "map_of (default_dict token n) ''headers'' = Some (PDict (n + 1))"
  "map_of (default_dict token n) ''data'' = Some (PDict n)"
  "map_of (default_dict token n) ''raw'' = None"
  by (simp_all add: default_dict_def)

text \<open>
  The literal of lines 168 to 177 has no key \<^verbatim>\<open>raw\<close>, so \<^verbatim>\<open>opts.pop('raw')\<close> on line 181
  raises whenever it is reached.
\<close>

lemma extract_raw_default:
  "extract_raw kwargs (default_dict token n) =
     (case map_of kwargs ''raw'' of
        Some raw \<Rightarrow> Inl (Uncaught (KeyError ''raw''))
      | None \<Rightarrow> Inr (PBool False, default_dict token n))"
  by (simp add: extract_raw_def dict_pop_def split: option.split)

lemma request_prepare_raw:
  assumes "map_of kwargs ''raw'' = Some v"
  shows "request_prepare env self method url kwargs st =
           (Inl (Uncaught (KeyError ''raw'')),
            st\<lparr>store := store st @ [[], store st ! self_headers self, []]\<rparr>)"
proof -
  obtain token where d: "default_opts env self st =
     (Inr (default_dict token (length (store st))),
      st\<lparr>store := store st @ [[], store st ! self_headers self, []]\<rparr>)"
    using default_opts_returns by blast
  show ?thesis
    by (simp add: request_prepare_def d extract_raw_default assms)
qed

lemma request_prepare_calls:
  "calls (snd (request_prepare env self method url kwargs st)) = calls st"
proof -
  obtain token where d: "default_opts env self st =
     (Inr (default_dict token (length (store st))),
      st\<lparr>store := store st @ [[], store st ! self_headers self, []]\<rparr>)"
    using default_opts_returns by blast
  show ?thesis
    by (simp add: request_prepare_def d Let_def split: sum.split prod.split)
qed

text \<open>What is known when the preparation reaches the network call.\<close>

lemma request_prepare_InrD:
  assumes "request_prepare env self method url kwargs st = (Inr (raw, c), st1)"
  shows "\<exists>token opts3 s2 url'.
           map_of kwargs ''raw'' = None \<and> raw = PBool False \<and>
           prepare_body env (dict_update (default_dict token (length (store st))) kwargs)
             (store st @ [[], store st ! self_headers self, []]) = Inr (opts3, s2) \<and>
           resolve_url env self url = Inr url' \<and>
           c = \<lparr>c_method = upper method, c_url = url', c_opts = opts3, c_store = s2\<rparr> \<and>
           st1 = st\<lparr>store := s2,
                    log := log st @ [(DEBUG, ''API '' @ upper method @ '' Request: '' @ url')]\<rparr>"
proof (cases "map_of kwargs ''raw''")
  case (Some v)
  with assms show ?thesis by (simp add: request_prepare_raw)
next
  case None
  let ?s = "store st @ [[], store st ! self_headers self, []]"
  obtain token where d: "default_opts env self st =
     (Inr (default_dict token (length (store st))), st\<lparr>store := ?s\<rparr>)"
    using default_opts_returns by blast
  have x: "extract_raw kwargs (default_dict token (length (store st)))
             = Inr (PBool False, default_dict token (length (store st)))"
    by (simp add: extract_raw_default None)
  show ?thesis
  proof (cases "prepare_body env (dict_update (default_dict token (length (store st))) kwargs) ?s")
    case (Inl e)
    with assms d x show ?thesis by (simp add: request_prepare_def Let_def)
  next
    case (Inr p)
    obtain opts3 s2 where p: "p = (opts3, s2)" by (cases p)
    show ?thesis
    proof (cases "resolve_url env self url")
      case (Inl e)
      with assms d x Inr p show ?thesis by (simp add: request_prepare_def Let_def)
    next
      case r: (Inr url')
      from assms d x Inr p r
      have "raw = PBool False"
        and "c = \<lparr>c_method = upper method, c_url = url', c_opts = opts3, c_store = s2\<rparr>"
        and "st1 = st\<lparr>store := s2,
                    log := log st @ [(DEBUG, ''API '' @ upper method @ '' Request: '' @ url')]\<rparr>"
        by (simp_all add: request_prepare_def Let_def)
      with None Inr p r show ?thesis by blast
    qed
  qed
qed

lemma prepare_body_InrD:
  assumes "prepare_body env opts s = Inr (opts3, s2)"
  shows "\<exists>files. map_of opts ''files'' = Some files \<and>
           (if truthy s files
            then \<exists>a. map_of opts ''headers'' = Some (PDict a) \<and> opts3 = opts \<and>
                      s2 = s[a := AList.delete ''Content-Type'' (s ! a)]
            else \<exists>d body. map_of opts ''data'' = Some d \<and> json_dumps env s d = Inr body \<and>
                      opts3 = AList.update ''data'' (PStr body) opts \<and> s2 = s)"
  using assms
  by (auto simp: prepare_body_def getitem_def dict_pop_default_def
      split: option.splits sum.splits if_splits pyval.splits)

lemma resolve_url_InrD:
  assumes "resolve_url env self url = Inr url'"
  shows "\<exists>host. (if str_truthy (self_api_host self) then self_api_host self else api_host env)
                  = Some host \<and> host \<noteq> [] \<and>
                url' = (if prefix host url then url else urljoin env host url)"
  using assms
  by (auto simp: resolve_url_def py_or_def split: option.splits if_splits)

lemma resolve_url_no_host:
  assumes "\<not> str_truthy (self_api_host self)" and "\<not> str_truthy (api_host env)"
  shows "resolve_url env self url = Inl (SolveError (Some ''No SolveBio API host is set'') None)"
  using assms by (cases "api_host env") (simp_all add: resolve_url_def py_or_def)

lemma request_dispatch_calls:
  "calls (snd (request_dispatch env raw c st)) = calls st @ [c]"
  by (simp add: request_dispatch_def handle_api_error_def Let_def split: sum.split)


lemma request_InrD:
  assumes "request_prepare env self method url kwargs st = (Inr (raw, c), st1)"
  shows "request env self method url kwargs st = request_dispatch env raw c st1"
    and "calls (snd (request env self method url kwargs st)) = calls st @ [c]"
proof -
  show eq: "request env self method url kwargs st = request_dispatch env raw c st1"
    using assms by (simp add: request_def)
  have "calls st1 = calls st"
    using request_prepare_calls [of env self "method" url kwargs st] assms by simp
  then show "calls (snd (request env self method url kwargs st)) = calls st @ [c]"
    by (simp add: eq request_dispatch_calls)
qed




subsection \<open>The example inputs, evaluated\<close>

lemma example_client_eval:
  "self_api_host example_client = None" "self_headers example_client = 0"
  by code_simp+

lemma example_state_eval:
  "calls example_state = []" "log example_state = []" "length (store example_state) = 2"
  by code_simp+

lemma example_prepared_ok:
  "example_prepared (example_env (Some example_host) outcome) ''/v1/x'' [] =
     (Inr (PBool False, example_call (example_env (Some example_host) outcome) ''/v1/x'' []),
      snd (example_prepared (example_env (Some example_host) outcome) ''/v1/x'' []))"
  by code_simp

lemma example_prepared_log:
  "log (snd (example_prepared (example_env (Some example_host) outcome) ''/v1/x'' []))
     = [(DEBUG, ''API GET Request: https://api.example.com/v1/x'')]"
  by code_simp

section \<open>The claims\<close>

subsection \<open>C1: the \<^verbatim>\<open>raw\<close> option\<close>

text \<open>
  C1 says that a call supplying \<^verbatim>\<open>raw\<close> has it taken out of the merged options before the
  dispatch and does not fail before the dispatch. The code pops \<^verbatim>\<open>raw\<close> from \<^verbatim>\<open>opts\<close>,
  the dictionary of defaults, which has no such key, where the key is in \<^verbatim>\<open>kwargs\<close>:
  for every call that supplies \<^verbatim>\<open>raw\<close>, whatever its value, \<^verbatim>\<open>request\<close> raises
  \<^verbatim>\<open>KeyError('raw')\<close> and the transport is not invoked.
\<close>

theorem request_raw_raises_KeyError:
  assumes "map_of kwargs ''raw'' = Some v"
  shows "fst (request env self method url kwargs st) = Inl (Uncaught (KeyError ''raw'')) \<and>
         calls (snd (request env self method url kwargs st)) = calls st"
  by (simp add: request_def request_prepare_raw [OF assms])

theorem request_raw_raises_KeyError_witness:
  "map_of [(''raw'', PBool True)] ''raw'' = Some (PBool True) \<and>
   fst (request example_ok_env example_client ''GET'' ''/v1/x'' [(''raw'', PBool True)]
          example_state)
     = Inl (Uncaught (PyExn ''KeyError'' [CHR 0x27, CHR ''r'', CHR ''a'', CHR ''w'', CHR 0x27] False)) \<and>
   calls (snd (request example_ok_env example_client ''GET'' ''/v1/x'' [(''raw'', PBool True)]
          example_state)) = []"
proof -
  have h: "map_of [(''raw'', PBool True)] ''raw'' = Some (PBool True)" by simp
  show ?thesis
    using h request_raw_raises_KeyError [OF h, of example_ok_env example_client "''GET''"
        "''/v1/x''" example_state]
    by (simp add: KeyError_def quote_def example_state_eval)
qed

subsection \<open>C2: the headers dictionary of a call\<close>




subsection \<open>C3: no host\<close>

text \<open>
  C3 says that a call with no host set anywhere raises the configuration error. The host
  is looked at on line 199, after \<^verbatim>\<open>raw\<close> has been taken out and the body prepared: with
  no host set, a call whose \<^verbatim>\<open>data\<close> the encoder rejects raises the encoder's
  \<^verbatim>\<open>TypeError\<close>, and a call that supplies \<^verbatim>\<open>raw\<close> raises \<^verbatim>\<open>KeyError\<close>.
\<close>

theorem no_host_other_error_counterexample:
  "self_api_host example_client = None \<and> api_host example_nohost_env = None \<and>
   fst (request example_nohost_env example_client ''POST'' ''/v1/x'' [(''data'', PObj ''file'')]
          example_state)
     = Inl (Uncaught (PyExn ''TypeError'' ''file is not JSON serializable'' False)) \<and>
   fst (request example_nohost_env example_client ''GET'' ''/v1/x'' [(''raw'', PBool True)]
          example_state)
     = Inl (Uncaught (PyExn ''KeyError'' [CHR 0x27, CHR ''r'', CHR ''a'', CHR ''w'', CHR 0x27] False))"
  by code_simp

text \<open>
  C3 as amended: with neither the client's host nor \<^verbatim>\<open>solvebio.api_host\<close> set, no call
  invokes the transport; and a call that does not supply \<^verbatim>\<open>raw\<close> and whose body
  preparation (lines 189 to 193) does not raise, raises the configuration error
  \<^verbatim>\<open>SolveError(message='No SolveBio API host is set')\<close>.
\<close>

theorem no_host_no_transport_call:
  assumes h1: "\<not> str_truthy (self_api_host self)" and h2: "\<not> str_truthy (api_host env)"
  shows "calls (snd (request env self method url kwargs st)) = calls st \<and>
         (map_of kwargs ''raw'' = None \<and> default_opts env self st = (Inr opts, st0) \<and>
          prepare_body env (dict_update opts kwargs) (store st0) = Inr b \<longrightarrow>
            fst (request env self method url kwargs st)
              = Inl (SolveError (Some ''No SolveBio API host is set'') None))"
proof -
  note r = resolve_url_no_host [OF h1 h2, of url]
  obtain res st1 where p: "request_prepare env self method url kwargs st = (res, st1)"
    by (cases "request_prepare env self method url kwargs st")
  have "\<exists>e. res = Inl e"
  proof (cases res)
    case (Inr x)
    obtain raw c where "x = (raw, c)" by (cases x)
    with p Inr request_prepare_InrD [of env self "method" url kwargs st raw c st1] r
    show ?thesis by auto
  qed simp
  then obtain e where e: "res = Inl e" by blast
  have "calls st1 = calls st"
    using request_prepare_calls [of env self "method" url kwargs st] p by simp
  then have A: "calls (snd (request env self method url kwargs st)) = calls st"
    by (simp add: request_def p e)
  have B: "map_of kwargs ''raw'' = None \<and> default_opts env self st = (Inr opts, st0) \<and>
          prepare_body env (dict_update opts kwargs) (store st0) = Inr b \<longrightarrow>
            fst (request env self method url kwargs st)
              = Inl (SolveError (Some ''No SolveBio API host is set'') None)"
  proof
    assume a: "map_of kwargs ''raw'' = None \<and> default_opts env self st = (Inr opts, st0) \<and>
          prepare_body env (dict_update opts kwargs) (store st0) = Inr b"
    obtain opts3 s2 where b: "b = (opts3, s2)" by (cases b)
    from a b r show "fst (request env self method url kwargs st)
              = Inl (SolveError (Some ''No SolveBio API host is set'') None)"
      by (simp add: request_def request_prepare_def extract_raw_def Let_def)
  qed
  from A B show ?thesis by blast
qed

theorem no_host_no_transport_call_witness:
  "\<not> str_truthy (self_api_host example_client) \<and> \<not> str_truthy (api_host example_nohost_env) \<and>
   calls (snd (request example_nohost_env example_client ''GET'' ''/v1/x'' [] example_state)) = [] \<and>
   fst (request example_nohost_env example_client ''GET'' ''/v1/x'' [] example_state)
     = Inl (SolveError (Some ''No SolveBio API host is set'') None)"
proof -
  have h1: "\<not> str_truthy (self_api_host example_client)" by code_simp
  have h2: "\<not> str_truthy (api_host example_nohost_env)" by code_simp
  have k: "map_of [] ''raw'' = (None :: pyval option)" by simp
  have d: "default_opts example_nohost_env example_client example_state
             = (Inr (projr (fst (default_opts example_nohost_env example_client example_state))),
                snd (default_opts example_nohost_env example_client example_state))"
    by code_simp
  have b: "prepare_body example_nohost_env
             (dict_update (projr (fst (default_opts example_nohost_env example_client example_state))) [])
             (store (snd (default_opts example_nohost_env example_client example_state)))
           = Inr (projr (prepare_body example_nohost_env
             (dict_update (projr (fst (default_opts example_nohost_env example_client example_state))) [])
             (store (snd (default_opts example_nohost_env example_client example_state)))))"
    by code_simp
  from no_host_no_transport_call [OF h1 h2, of "''GET''" "''/v1/x''" "[]" example_state
      "projr (fst (default_opts example_nohost_env example_client example_state))"
      "snd (default_opts example_nohost_env example_client example_state)"
      "projr (prepare_body example_nohost_env
             (dict_update (projr (fst (default_opts example_nohost_env example_client example_state))) [])
             (store (snd (default_opts example_nohost_env example_client example_state))))"]
    h1 h2 k d b
  show ?thesis by (simp add: example_state_eval)
qed

subsection \<open>C4: status codes outside [200, 400)\<close>

text \<open>
  C4: when the network call completes with a status code outside [200, 400), \<^verbatim>\<open>request\<close>
  raises \<^verbatim>\<open>SolveError(response=response)\<close>, the same for every such code, and logs
  \<^verbatim>\<open>API Error: <code>\<close> at level info before raising exactly when the code is not one of
  400, 401, 403, 404. The hypothesis on \<open>request_prepare\<close> says that the call reached
  the network call, with arguments \<open>c\<close>.
\<close>

theorem api_error_classification:
  assumes "request_prepare env self method url kwargs st = (Inr (raw, c), st1)"
      and "requests_request env c = Inr r"
      and "\<not> (200 \<le> status_code r \<and> status_code r < 400)"
  shows "request env self method url kwargs st =
           (Inl (SolveError None (Some r)),
            st1\<lparr>calls := calls st1 @ [c],
                log := log st1 @
                  (if status_code r \<in> {400, 401, 403, 404} then []
                   else [(INFO, ''API Error: '' @ fmt_d (status_code r))])\<rparr>)"
  using assms
  by (simp add: request_def request_dispatch_def handle_api_error_def Let_def)

theorem api_error_classification_witness:
  "fst (request (example_status_env 500) example_client ''get'' ''/v1/x'' [] example_state)
     = Inl (SolveError None (Some (example_response 500))) \<and>
   log (snd (request (example_status_env 500) example_client ''get'' ''/v1/x'' [] example_state))
     = [(DEBUG, ''API GET Request: https://api.example.com/v1/x''), (INFO, ''API Error: 500'')] \<and>
   fst (request (example_status_env 404) example_client ''get'' ''/v1/x'' [] example_state)
     = Inl (SolveError None (Some (example_response 404))) \<and>
   log (snd (request (example_status_env 404) example_client ''get'' ''/v1/x'' [] example_state))
     = [(DEBUG, ''API GET Request: https://api.example.com/v1/x'')]"
proof -
  have p: "request_prepare (example_status_env n) example_client ''get'' ''/v1/x'' [] example_state =
     (Inr (PBool False, example_call (example_status_env n) ''/v1/x'' []),
      snd (example_prepared (example_status_env n) ''/v1/x'' []))" for n
    using example_prepared_ok [of "Inr (example_response n)"]
    by (simp add: example_prepared_def example_status_env_def)
  have t: "requests_request (example_status_env n) (example_call (example_status_env n) ''/v1/x'' [])
             = Inr (example_response n)" for n
    by (simp add: example_status_env_def example_env_def)
  have s: "status_code (example_response n) = n" for n
    by (simp add: example_response_def)
  have l: "log (snd (example_prepared (example_status_env n) ''/v1/x'' []))
             = [(DEBUG, ''API GET Request: https://api.example.com/v1/x'')]" for n
    using example_prepared_log [of "Inr (example_response n)"]
    by (simp add: example_status_env_def)
  have f: "fmt_d 500 = ''500''" by code_simp
  have o500: "\<not> (200 \<le> status_code (example_response 500) \<and> status_code (example_response 500) < 400)"
    by (simp add: s)
  have o404: "\<not> (200 \<le> status_code (example_response 404) \<and> status_code (example_response 404) < 400)"
    by (simp add: s)
  show ?thesis
    using api_error_classification [OF p t o500] api_error_classification [OF p t o404]
    by (simp add: l f s)
qed

subsection \<open>C5: the credential resolver\<close>

text \<open>
  C5: \<^verbatim>\<open>SolveTokenAuth(token)\<close> never raises, and its token is the explicit token when one
  is given (a non-empty string), else \<^verbatim>\<open>solvebio.api_key\<close> when that is set, else the
  second element of the tuple \<^verbatim>\<open>get_credentials()\<close> returns; a lookup that raises, returns
  \<^verbatim>\<open>None\<close> or returns a tuple without a second element gives no token.
\<close>

theorem credential_resolver_precedence:
  "SolveTokenAuth_init env token =
     Inr (if str_truthy token then token
          else if str_truthy (api_key env) then api_key env
          else (case get_credentials env of
                  CredTuple xs \<Rightarrow> if 1 < length xs then xs ! 1 else None
                | CredNone \<Rightarrow> None
                | CredRaises e \<Rightarrow> None))"
  by (simp add: SolveTokenAuth_init_def get_api_key_def credentials_item1_def
      split: cred_outcome.split)

theorem credential_resolver_precedence_witness:
  "SolveTokenAuth_init example_ok_env None = Inr (Some ''K'') \<and>
   SolveTokenAuth_init example_ok_env (Some ''E'') = Inr (Some ''E'') \<and>
   SolveTokenAuth_init (example_ok_env\<lparr>api_key := None\<rparr>) None = Inr (Some ''S'') \<and>
   SolveTokenAuth_init
     (example_ok_env\<lparr>api_key := None,
                     get_credentials := CredRaises (PyExn ''IOError'' ''no such file'' False)\<rparr>)
     None = Inr None"
  using credential_resolver_precedence [of example_ok_env None]
    credential_resolver_precedence [of example_ok_env "Some ''E''"]
    credential_resolver_precedence [of "example_ok_env\<lparr>api_key := None\<rparr>" None]
    credential_resolver_precedence [of "example_ok_env\<lparr>api_key := None,
                     get_credentials := CredRaises (PyExn ''IOError'' ''no such file'' False)\<rparr>" None]
  by (simp add: example_ok_env_def example_status_env_def example_env_def)

subsection \<open>C6: exceptions of the network call\<close>



subsection \<open>C7: status codes inside [200, 400)\<close>



subsection \<open>C8: file uploads and JSON bodies\<close>

text \<open>
  C8: in every call that reaches the network call, if \<^verbatim>\<open>files\<close> is present (true, as line
  189 tests it) the headers dictionary sent has no \<^verbatim>\<open>Content-Type\<close> and \<^verbatim>\<open>data\<close> is sent
  as it was given; if \<^verbatim>\<open>files\<close> is absent, \<^verbatim>\<open>data\<close> is sent as the string
  \<^verbatim>\<open>json.dumps(data)\<close>. Here \<open>files\<close> and \<open>data\<close> are the merged options (the caller's
  value, else the default), \<open>s\<close> is the store once the defaults are built, and a
  \<^verbatim>\<open>headers\<close> dictionary of the caller is one that exists in the store. The key
  removed is the string \<^verbatim>\<open>Content-Type\<close>, compared as a dictionary compares its keys.
\<close>

theorem file_upload_body:
  assumes prep: "request_prepare env self method url kwargs st = (Inr (raw, c), st1)"
      and wf: "\<forall>a. map_of kwargs ''headers'' = Some (PDict a) \<longrightarrow> a < length (store st)"
      and files: "files = (case map_of kwargs ''files'' of Some f \<Rightarrow> f | None \<Rightarrow> PNone)"
      and data: "data = (case map_of kwargs ''data'' of Some d \<Rightarrow> d
                          | None \<Rightarrow> PDict (length (store st)))"
      and s: "s = store st @ [[], store st ! self_headers self, []]"
  shows "(truthy s files \<longrightarrow>
            (\<exists>a. map_of (c_opts c) ''headers'' = Some (PDict a) \<and>
                 map_of (c_store c ! a) ''Content-Type'' = None) \<and>
            map_of (c_opts c) ''data'' = Some data) \<and>
         (\<not> truthy s files \<longrightarrow>
            (\<exists>body. json_dumps env s data = Inr body \<and>
                    map_of (c_opts c) ''data'' = Some (PStr body))) \<and>
         calls (snd (request env self method url kwargs st)) = calls st @ [c]"
proof -
  from request_prepare_InrD [OF prep]
  obtain token opts3 s2 url' where
    pb: "prepare_body env (dict_update (default_dict token (length (store st))) kwargs) s
           = Inr (opts3, s2)"
    and c: "c = \<lparr>c_method = upper method, c_url = url', c_opts = opts3, c_store = s2\<rparr>"
    unfolding s by blast
  let ?opts = "dict_update (default_dict token (length (store st))) kwargs"
  have f: "map_of ?opts ''files'' = Some files"
    by (simp add: map_of_dict_update files split: option.split)
  have d: "map_of ?opts ''data'' = Some data"
    by (simp add: map_of_dict_update data split: option.split)
  from prepare_body_InrD [OF pb] f
  have cases: "if truthy s files
            then \<exists>a. map_of ?opts ''headers'' = Some (PDict a) \<and> opts3 = ?opts \<and>
                      s2 = s[a := AList.delete ''Content-Type'' (s ! a)]
            else \<exists>d body. map_of ?opts ''data'' = Some d \<and> json_dumps env s d = Inr body \<and>
                      opts3 = AList.update ''data'' (PStr body) ?opts \<and> s2 = s"
    by auto
  have up: "truthy s files \<longrightarrow>
            (\<exists>a. map_of (c_opts c) ''headers'' = Some (PDict a) \<and>
                 map_of (c_store c ! a) ''Content-Type'' = None) \<and>
            map_of (c_opts c) ''data'' = Some data"
  proof
    assume t: "truthy s files"
    with cases obtain a where a: "map_of ?opts ''headers'' = Some (PDict a)"
      and o: "opts3 = ?opts" and s2: "s2 = s[a := AList.delete ''Content-Type'' (s ! a)]"
      by auto
    have "a < length s"
    proof (cases "map_of kwargs ''headers''")
      case None
      with a have "a = length (store st) + 1" by (simp add: map_of_dict_update)
      then show ?thesis by (simp add: s)
    next
      case (Some v)
      with a have "map_of kwargs ''headers'' = Some (PDict a)" by (simp add: map_of_dict_update)
      with wf have "a < length (store st)" by blast
      then show ?thesis by (simp add: s)
    qed
    then have "map_of (s2 ! a) ''Content-Type'' = None"
      by (simp add: s2 delete_conv')
    with a o d show "(\<exists>a. map_of (c_opts c) ''headers'' = Some (PDict a) \<and>
                 map_of (c_store c ! a) ''Content-Type'' = None) \<and>
            map_of (c_opts c) ''data'' = Some data"
      by (auto simp: c)
  qed
  have js: "\<not> truthy s files \<longrightarrow>
            (\<exists>body. json_dumps env s data = Inr body \<and>
                    map_of (c_opts c) ''data'' = Some (PStr body))"
  proof
    assume "\<not> truthy s files"
    with cases d obtain body where "json_dumps env s data = Inr body"
      and "opts3 = AList.update ''data'' (PStr body) ?opts"
      by auto
    then show "\<exists>body. json_dumps env s data = Inr body \<and>
                    map_of (c_opts c) ''data'' = Some (PStr body)"
      by (auto simp: c update_conv')
  qed
  from up js request_InrD(2) [OF prep] show ?thesis by blast
qed

theorem file_upload_body_witness:
  "(\<exists>a. map_of (c_opts (example_call example_ok_env ''/v1/x'' example_kwargs_upload)) ''headers''
          = Some (PDict a) \<and>
        map_of (c_store (example_call example_ok_env ''/v1/x'' example_kwargs_upload) ! a)
          ''Content-Type'' = None) \<and>
   map_of (c_opts (example_call example_ok_env ''/v1/x'' example_kwargs_upload)) ''data''
     = Some (PDict 2) \<and>
   map_of (c_opts (example_call example_ok_env ''/v1/x'' [])) ''data'' = Some (PStr ''{}'')"
proof -
  let ?s = "store example_state @ [[], store example_state ! self_headers example_client, []]"
  have p1: "request_prepare example_ok_env example_client ''get'' ''/v1/x'' example_kwargs_upload
              example_state =
     (Inr (PBool False, example_call example_ok_env ''/v1/x'' example_kwargs_upload),
      snd (example_prepared example_ok_env ''/v1/x'' example_kwargs_upload))"
    by code_simp
  have p2: "request_prepare example_ok_env example_client ''get'' ''/v1/x'' [] example_state =
     (Inr (PBool False, example_call example_ok_env ''/v1/x'' []),
      snd (example_prepared example_ok_env ''/v1/x'' []))"
    by code_simp
  have wf1: "\<forall>a. map_of example_kwargs_upload ''headers'' = Some (PDict a)
               \<longrightarrow> a < length (store example_state)"
    by (simp add: example_kwargs_upload_def example_state_eval)
  have wf2: "\<forall>a. map_of [] ''headers'' = Some (PDict a) \<longrightarrow> a < length (store example_state)"
    by simp
  have f1: "PObj ''file'' = (case map_of example_kwargs_upload ''files'' of Some f \<Rightarrow> f
                             | None \<Rightarrow> PNone)"
    by (simp add: example_kwargs_upload_def)
  have f2: "PNone = (case map_of [] ''files'' of Some f \<Rightarrow> f | None \<Rightarrow> PNone)"
    by simp
  have d1: "PDict 2 = (case map_of example_kwargs_upload ''data'' of Some d \<Rightarrow> d
                        | None \<Rightarrow> PDict (length (store example_state)))"
    by (simp add: example_kwargs_upload_def example_state_eval)
  have d2: "PDict 2 = (case map_of [] ''data'' of Some d \<Rightarrow> d
                        | None \<Rightarrow> PDict (length (store example_state)))"
    by (simp add: example_state_eval)
  have e: "json_dumps example_ok_env ?s (PDict 2) = Inr ''{}''"
    by (simp add: example_ok_env_def example_status_env_def example_env_def example_dumps_def)
  show ?thesis
    using file_upload_body [OF p1 wf1 f1 d1 refl] file_upload_body [OF p2 wf2 f2 d2 refl] e
    by auto
qed

subsection \<open>C9: the host and the URL\<close>

text \<open>
  C9: in every call that reaches the network call, the host is the client's own host
  when it has one (a non-empty string) and \<^verbatim>\<open>solvebio.api_host\<close> otherwise, and the URL
  requested is the given \<^verbatim>\<open>url\<close> unchanged when it starts with the host, and
  \<^verbatim>\<open>urljoin(host, url)\<close> otherwise.
\<close>

theorem url_resolution:
  assumes prep: "request_prepare env self method url kwargs st = (Inr (raw, c), st1)"
  shows "\<exists>host. (if str_truthy (self_api_host self) then self_api_host self else api_host env)
                  = Some host \<and> host \<noteq> [] \<and>
                c_url c = (if prefix host url then url else urljoin env host url) \<and>
                calls (snd (request env self method url kwargs st)) = calls st @ [c]"
proof -
  from request_prepare_InrD [OF prep]
  obtain url' opts3 s2 where r: "resolve_url env self url = Inr url'"
    and c: "c = \<lparr>c_method = upper method, c_url = url', c_opts = opts3, c_store = s2\<rparr>"
    by blast
  from resolve_url_InrD [OF r] request_InrD(2) [OF prep] c show ?thesis by auto
qed

theorem url_resolution_witness:
  "c_url (example_call example_ok_env ''/v1/x'' []) = ''https://api.example.com/v1/x'' \<and>
   c_url (example_call example_ok_env ''https://api.example.com/v1/x'' [])
     = ''https://api.example.com/v1/x'' \<and>
   calls (snd (request example_ok_env example_client ''get'' ''/v1/x'' [] example_state))
     = [example_call example_ok_env ''/v1/x'' []]"
proof -
  have p1: "request_prepare example_ok_env example_client ''get'' ''/v1/x'' [] example_state =
     (Inr (PBool False, example_call example_ok_env ''/v1/x'' []),
      snd (example_prepared example_ok_env ''/v1/x'' []))"
    by code_simp
  have p2: "request_prepare example_ok_env example_client ''get'' ''https://api.example.com/v1/x''
              [] example_state =
     (Inr (PBool False, example_call example_ok_env ''https://api.example.com/v1/x'' []),
      snd (example_prepared example_ok_env ''https://api.example.com/v1/x'' []))"
    by code_simp
  have h: "api_host example_ok_env = Some ''https://api.example.com''"
    by code_simp
  have j: "urljoin example_ok_env b u = b @ u" for b u
    by (simp add: example_ok_env_def example_status_env_def example_env_def)
  show ?thesis
    using url_resolution [OF p1] url_resolution [OF p2]
    by (auto simp: example_client_eval example_state_eval h j)
qed

subsection \<open>C10: a false explicit token\<close>



end
